theory Spec2Isabelle
  imports Main "HOL-Library.Word" "HOL-Library.Sublist"
begin

section \<open>Entity model (types.ts)\<close>

text \<open>
  The records follow the interfaces of the type declarations. Field names that several
  interfaces share (\<open>id\<close>, \<open>name\<close>, \<open>icon\<close>, \<open>profileId\<close>, \<open>type\<close>) carry the
  interface as a prefix, since record fields are global constants; the other fields
  keep the source's names. Optional fields (\<open>categoryId?\<close>) are options.
\<close>

datatype Role = ADMIN | USER

text \<open>
  \<open>TransactionType\<close> and \<open>PaymentMethod\<close> are string enums. The CSV import casts
  an unchecked lower-cased string to them, so at run time the field holds any string.
\<close>

type_synonym TransactionType = string
type_synonym PaymentMethod = string

definition INCOME :: TransactionType where "INCOME = ''income''"
definition EXPENSE :: TransactionType where "EXPENSE = ''expense''"

text \<open>
  A JavaScript number, as far as the store and the CSV pipeline look at it: not-a-number,
  an infinity (\<open>True\<close> for the negative one), or a decimal \<open>m * 10 ^ e\<close>. Rounding to
  the nearest double is not modelled.
\<close>

datatype jsnum = NaN | Infinity bool | Finite int int

record Attachment =
  att_id :: string
  att_name :: string
  dataUrl :: string
  att_type :: string

record Transaction =
  tx_id :: string
  tx_profileId :: string
  tx_type :: TransactionType
  amount :: jsnum
  description :: string
  date :: string
  categoryId :: "string option"
  sourceId :: "string option"
  paymentMethod :: PaymentMethod
  attachments :: "Attachment list option"

record Category =
  cat_id :: string
  cat_name :: string
  cat_icon :: string
  cat_isDefault :: "bool option"
  cat_profileId :: string

record IncomeSource =
  src_id :: string
  src_name :: string
  src_icon :: string
  src_isDefault :: "bool option"
  src_profileId :: string

record Currency =
  code :: string
  symbol :: string
  currency_name :: string

record Profile =
  profile_id :: string
  profile_name :: string
  currencyCode :: string
  userId :: string

record User =
  user_id :: string
  email :: string
  passwordHash :: string
  role :: Role

record AppData =
  users :: "User list"
  profiles :: "Profile list"
  transactions :: "Transaction list"
  categories :: "Category list"
  incomeSources :: "IncomeSource list"
  currencies :: "Currency list"

text \<open>
  The constants module is not part of the sources at hand. Its three lists are
  parameters of the model: an entry of \<open>DEFAULT_CATEGORIES\<close> or
  \<open>DEFAULT_INCOME_SOURCES\<close> is a category or income source without the identifier and
  the profile that \<open>addProfile\<close> assigns.
\<close>

record Template =
  tpl_name :: string
  tpl_icon :: string
  tpl_isDefault :: "bool option"

record Constants =
  DEFAULT_CATEGORIES :: "Template list"
  DEFAULT_INCOME_SOURCES :: "Template list"
  DEFAULT_CURRENCIES :: "Currency list"

section \<open>Built-ins of the language\<close>

text \<open>Strings are byte strings; \<open>toLowerCase\<close> is modelled on ASCII letters.\<close>

definition toLowerCase_char :: "char \<Rightarrow> char" where
  "toLowerCase_char c =
     (case map_of (zip ''ABCDEFGHIJKLMNOPQRSTUVWXYZ'' ''abcdefghijklmnopqrstuvwxyz'') c of
        Some l \<Rightarrow> l
      | None \<Rightarrow> c)"

definition toLowerCase :: "string \<Rightarrow> string" where
  "toLowerCase s = map toLowerCase_char s"

text \<open>\<open>Array.prototype.findIndex\<close>: the first index whose element passes, \<open>None\<close> for -1.\<close>

fun findIndex :: "('a \<Rightarrow> bool) \<Rightarrow> 'a list \<Rightarrow> nat option" where
  "findIndex P [] = None"
| "findIndex P (x # xs) =
     (if P x then Some 0 else map_option Suc (findIndex P xs))"

text \<open>\<open>String.prototype.split\<close> with a separator of one character, and \<open>Array.prototype.join\<close>.\<close>

fun split_str :: "char \<Rightarrow> string \<Rightarrow> string list" where
  "split_str sep [] = [[]]"
| "split_str sep (c # cs) =
     (if c = sep then [] # split_str sep cs
      else (case split_str sep cs of w # ws \<Rightarrow> (c # w) # ws | [] \<Rightarrow> [[c]]))"

fun join :: "string \<Rightarrow> string list \<Rightarrow> string" where
  "join sep [] = []"
| "join sep [x] = x"
| "join sep (x # y # ys) = x @ sep @ join sep (y # ys)"

text \<open>\<open>String.prototype.trim\<close>, on the ASCII white space: space, tab, line feed, vertical
  tab, form feed, carriage return.\<close>

definition isWhiteSpace :: "char \<Rightarrow> bool" where
  "isWhiteSpace c = (c \<in> set [CHR 0x20, CHR 0x09, CHR 0x0A, CHR 0x0B, CHR 0x0C, CHR 0x0D])"

definition trim :: "string \<Rightarrow> string" where
  "trim s = rev (dropWhile isWhiteSpace (rev (dropWhile isWhiteSpace s)))"

text \<open>A value that may be \<open>undefined\<close> is an option. \<open>!v\<close> holds of \<open>undefined\<close> and of the
  empty string; \<open>String(v)\<close> of \<open>undefined\<close> is the word.\<close>

definition falsy :: "string option \<Rightarrow> bool" where
  "falsy v = (case v of None \<Rightarrow> True | Some s \<Rightarrow> s = [])"

definition toStr :: "string option \<Rightarrow> string" where
  "toStr v = (case v of None \<Rightarrow> ''undefined'' | Some s \<Rightarrow> s)"

definition nth_opt :: "'a list \<Rightarrow> nat \<Rightarrow> 'a option" where
  "nth_opt xs i = (if i < length xs then Some (xs ! i) else None)"

text \<open>
  \<open>parseFloat\<close>: leading white space is skipped, then the longest prefix that is a decimal
  literal (sign, digits, fraction, exponent) or a signed \<open>Infinity\<close> is read; a string
  with no such prefix gives \<open>NaN\<close>.
\<close>

definition isDigit :: "char \<Rightarrow> bool" where
  "isDigit c = (c \<in> set ''0123456789'')"

definition digitValue :: "char \<Rightarrow> nat" where
  "digitValue c =
     (case map_of [(CHR ''0'', 0), (CHR ''1'', 1), (CHR ''2'', 2), (CHR ''3'', 3), (CHR ''4'', 4),
                   (CHR ''5'', 5), (CHR ''6'', 6), (CHR ''7'', 7), (CHR ''8'', 8), (CHR ''9'', 9)] c of
        Some d \<Rightarrow> d
      | None \<Rightarrow> 0)"

definition digitsValue :: "string \<Rightarrow> nat" where
  "digitsValue ds = foldl (\<lambda>a c. 10 * a + digitValue c) 0 ds"

definition readSign :: "string \<Rightarrow> bool \<times> string" where
  "readSign s =
     (case s of
        c # cs \<Rightarrow> if c = CHR ''-'' then (True, cs) else if c = CHR ''+'' then (False, cs) else (False, s)
      | [] \<Rightarrow> (False, s))"

definition readExponent :: "string \<Rightarrow> int" where
  "readExponent s =
     (case s of
        c # cs \<Rightarrow>
          if c = CHR ''e'' \<or> c = CHR ''E'' then
            (let (neg, r) = readSign cs; ds = takeWhile isDigit r
             in if ds = [] then 0 else if neg then - int (digitsValue ds) else int (digitsValue ds))
          else 0
      | [] \<Rightarrow> 0)"

definition parseFloat :: "string \<Rightarrow> jsnum" where
  "parseFloat s =
     (let (neg, r) = readSign (dropWhile isWhiteSpace s) in
      if take 8 r = ''Infinity'' then Infinity neg
      else
        let intDigits = takeWhile isDigit r;
            r1 = dropWhile isDigit r;
            hasPoint = (r1 \<noteq> [] \<and> hd r1 = CHR ''.'');
            fracDigits = (if hasPoint then takeWhile isDigit (tl r1) else []);
            r2 = (if hasPoint then dropWhile isDigit (tl r1) else r1)
        in if intDigits = [] \<and> fracDigits = [] then NaN
           else
             let m = int (digitsValue (intDigits @ fracDigits))
             in Finite (if neg then - m else m) (readExponent r2 - int (length fracDigits)))"

definition isNaN :: "jsnum \<Rightarrow> bool" where
  "isNaN x = (x = NaN)"

text \<open>Decimal digits of a natural number and of an integer (\<open>Number.prototype.toString\<close>
  on an integer value).\<close>

fun show_nat :: "nat \<Rightarrow> string" where
  "show_nat n =
     (if n < 10 then [''0123456789'' ! n] else show_nat (n div 10) @ [''0123456789'' ! (n mod 10)])"

declare show_nat.simps [simp del]

definition show_int :: "int \<Rightarrow> string" where
  "show_int i = (if i < 0 then CHR ''-'' # show_nat (nat (- i)) else show_nat (nat i))"

text \<open>
  \<open>String(x)\<close> of a number, as \<open>Array.prototype.join\<close> applies it: the decimal notation
  without trailing zeros. The exponent notation that the language uses from \<open>1e21\<close> on
  and below \<open>1e-6\<close> is not modelled.
\<close>

definition numToString :: "jsnum \<Rightarrow> string" where
  "numToString x =
     (case x of
        NaN \<Rightarrow> ''NaN''
      | Infinity neg \<Rightarrow> (if neg then ''-Infinity'' else ''Infinity'')
      | Finite m e \<Rightarrow>
          if m = 0 then ''0''
          else if 0 \<le> e then show_int (m * 10 ^ nat e)
          else
            let k = nat (- e);
                ds = show_nat (nat \<bar>m\<bar>);
                padded = replicate (Suc k - length ds) CHR ''0'' @ ds;
                ip = take (length padded - k) padded;
                fp = rev (dropWhile (\<lambda>c. c = CHR ''0'') (rev (drop (length padded - k) padded)))
            in (if m < 0 then ''-'' else []) @ ip @ (if fp = [] then [] else CHR ''.'' # fp))"

text \<open>
  \<open>new Date(s).toISOString()\<close>, which throws a \<open>RangeError\<close> on an invalid date: \<open>None\<close>.
  The model reads the date-only form \<open>YYYY-MM-DD\<close> of a day of the calendar, which is
  midnight UTC of that day, and takes every other string for an invalid date (what an
  engine makes of other strings is its own choice).
\<close>

definition daysInMonth :: "nat \<Rightarrow> nat \<Rightarrow> nat" where
  "daysInMonth y m =
     (if m = 2 then (if y mod 4 = 0 \<and> (y mod 100 \<noteq> 0 \<or> y mod 400 = 0) then 29 else 28)
      else if m = 4 \<or> m = 6 \<or> m = 9 \<or> m = 11 then 30 else 31)"

definition dateToISOString :: "string \<Rightarrow> string option" where
  "dateToISOString s =
     (let y = take 4 s; m = take 2 (drop 5 s); d = take 2 (drop 8 s) in
      if length s = 10 \<and> s ! 4 = CHR ''-'' \<and> s ! 7 = CHR ''-''
         \<and> list_all isDigit (y @ m @ d)
         \<and> 1 \<le> digitsValue m \<and> digitsValue m \<le> 12
         \<and> 1 \<le> digitsValue d \<and> digitsValue d \<le> daysInMonth (digitsValue y) (digitsValue m)
      then Some (s @ ''T00:00:00.000Z'')
      else None)"

section \<open>The store (useAppData)\<close>

text \<open>
  Every operation of the hook takes the current snapshot and returns the next one; an
  operation that returns a value returns it beside the snapshot. The closure variable
  \<open>data\<close> and the \<open>prev\<close> argument of a state update are the same snapshot: operations
  run one at a time on the rendered state. A call of \<open>crypto.randomUUID()\<close> is an
  argument of the operation: one string where the operation draws once, a function from
  the draw's number to the string where it draws in a loop.
\<close>

text \<open>\<open>simpleHash\<close>: \<open>hash |= 0\<close> keeps the low 32 bits, read as a signed integer; the
  character codes are those of an ASCII string.\<close>

definition simpleHash :: "string \<Rightarrow> string" where
  "simpleHash str =
     show_int (sint (fold (\<lambda>c hash. (push_bit 5 hash - hash) + of_nat (of_char c)) str (0 :: 32 word)))"

definition initialData :: "Constants \<Rightarrow> AppData" where
  "initialData K =
     \<lparr>users = [], profiles = [], transactions = [], categories = [], incomeSources = [],
      currencies = DEFAULT_CURRENCIES K\<rparr>"

definition addUser :: "AppData \<Rightarrow> string \<Rightarrow> string \<Rightarrow> string \<Rightarrow> User \<times> AppData" where
  "addUser data uuid em pw =
     (let r = (if length (users data) = 0 then ADMIN else USER);
          newUser = \<lparr>user_id = uuid, email = em, passwordHash = pw, role = r\<rparr>
      in (newUser, data\<lparr>users := users data @ [newUser]\<rparr>))"

definition addProfile ::
  "Constants \<Rightarrow> AppData \<Rightarrow> (nat \<Rightarrow> string) \<Rightarrow> string \<Rightarrow> string \<Rightarrow> string \<Rightarrow> Profile \<times> AppData" where
  "addProfile K data randomUUID uid nm cur =
     (let newProfile = \<lparr>profile_id = randomUUID 0, profile_name = nm, currencyCode = cur, userId = uid\<rparr>;
          n = length (DEFAULT_CATEGORIES K);
          userCategories =
            map (\<lambda>(i, cat). \<lparr>cat_id = profile_id newProfile @ ''-'' @ randomUUID i,
                   cat_name = tpl_name cat, cat_icon = tpl_icon cat,
                   cat_isDefault = tpl_isDefault cat, cat_profileId = profile_id newProfile\<rparr>)
              (enumerate 1 (DEFAULT_CATEGORIES K));
          userIncomeSources =
            map (\<lambda>(i, src). \<lparr>src_id = profile_id newProfile @ ''-'' @ randomUUID i,
                   src_name = tpl_name src, src_icon = tpl_icon src,
                   src_isDefault = tpl_isDefault src, src_profileId = profile_id newProfile\<rparr>)
              (enumerate (1 + n) (DEFAULT_INCOME_SOURCES K))
      in (newProfile,
          data\<lparr>profiles := profiles data @ [newProfile],
               categories := categories data @ userCategories,
               incomeSources := incomeSources data @ userIncomeSources\<rparr>))"

definition addTransaction :: "AppData \<Rightarrow> string \<Rightarrow> Transaction \<Rightarrow> AppData" where
  "addTransaction data uuid t = data\<lparr>transactions := transactions data @ [t\<lparr>tx_id := uuid\<rparr>]\<rparr>"

definition addMultipleTransactions :: "AppData \<Rightarrow> (nat \<Rightarrow> string) \<Rightarrow> Transaction list \<Rightarrow> AppData" where
  "addMultipleTransactions data randomUUID ts =
     data\<lparr>transactions := transactions data @ map (\<lambda>(i, t). t\<lparr>tx_id := randomUUID i\<rparr>) (enumerate 0 ts)\<rparr>"

definition updateTransaction :: "AppData \<Rightarrow> Transaction \<Rightarrow> AppData" where
  "updateTransaction data updatedTransaction =
     data\<lparr>transactions :=
       map (\<lambda>t. if tx_id t = tx_id updatedTransaction then updatedTransaction else t) (transactions data)\<rparr>"

definition deleteTransaction :: "AppData \<Rightarrow> string \<Rightarrow> AppData" where
  "deleteTransaction data transactionId =
     data\<lparr>transactions := filter (\<lambda>t. tx_id t \<noteq> transactionId) (transactions data)\<rparr>"

definition addCategory :: "AppData \<Rightarrow> string \<Rightarrow> string \<Rightarrow> string \<Rightarrow> string \<Rightarrow> AppData" where
  "addCategory data uuid pid nm ic =
     data\<lparr>categories := categories data @
       [\<lparr>cat_id = uuid, cat_name = nm, cat_icon = ic, cat_isDefault = None, cat_profileId = pid\<rparr>]\<rparr>"

definition deleteCategory :: "AppData \<Rightarrow> string \<Rightarrow> AppData" where
  "deleteCategory data cid = data\<lparr>categories := filter (\<lambda>c. cat_id c \<noteq> cid) (categories data)\<rparr>"

definition addIncomeSource :: "AppData \<Rightarrow> string \<Rightarrow> string \<Rightarrow> string \<Rightarrow> string \<Rightarrow> AppData" where
  "addIncomeSource data uuid pid nm ic =
     data\<lparr>incomeSources := incomeSources data @
       [\<lparr>src_id = uuid, src_name = nm, src_icon = ic, src_isDefault = None, src_profileId = pid\<rparr>]\<rparr>"

definition deleteIncomeSource :: "AppData \<Rightarrow> string \<Rightarrow> AppData" where
  "deleteIncomeSource data sid =
     data\<lparr>incomeSources := filter (\<lambda>s. src_id s \<noteq> sid) (incomeSources data)\<rparr>"

definition addCurrency :: "AppData \<Rightarrow> Currency \<Rightarrow> AppData" where
  "addCurrency data currency = data\<lparr>currencies := currencies data @ [currency]\<rparr>"

definition deleteCurrency :: "AppData \<Rightarrow> string \<Rightarrow> AppData" where
  "deleteCurrency data currencyCode' =
     data\<lparr>currencies := filter (\<lambda>c. code c \<noteq> currencyCode') (currencies data)\<rparr>"

definition updateProfile :: "AppData \<Rightarrow> Profile \<Rightarrow> AppData" where
  "updateProfile data updatedProfile =
     data\<lparr>profiles :=
       map (\<lambda>p. if profile_id p = profile_id updatedProfile then updatedProfile else p) (profiles data)\<rparr>"

definition deleteProfile :: "AppData \<Rightarrow> string \<Rightarrow> AppData" where
  "deleteProfile data pid =
     data\<lparr>profiles := filter (\<lambda>p. profile_id p \<noteq> pid) (profiles data),
          transactions := filter (\<lambda>t. tx_profileId t \<noteq> pid) (transactions data),
          categories := filter (\<lambda>c. cat_profileId c \<noteq> pid) (categories data),
          incomeSources := filter (\<lambda>s. src_profileId s \<noteq> pid) (incomeSources data)\<rparr>"

definition deleteUser :: "AppData \<Rightarrow> string \<Rightarrow> AppData" where
  "deleteUser data uid =
     (let profilesToDelete = filter (\<lambda>p. userId p = uid) (profiles data);
          profileIdsToDelete = set (map profile_id profilesToDelete)
      in data\<lparr>users := filter (\<lambda>u. user_id u \<noteq> uid) (users data),
              profiles := filter (\<lambda>p. userId p \<noteq> uid) (profiles data),
              transactions := filter (\<lambda>t. tx_profileId t \<notin> profileIdsToDelete) (transactions data),
              categories := filter (\<lambda>c. cat_profileId c \<notin> profileIdsToDelete) (categories data),
              incomeSources := filter (\<lambda>s. src_profileId s \<notin> profileIdsToDelete) (incomeSources data)\<rparr>)"

definition resetPassword :: "AppData \<Rightarrow> string \<Rightarrow> bool \<times> AppData" where
  "resetPassword data em =
     (case findIndex (\<lambda>u. toLowerCase (email u) = toLowerCase em) (users data) of
        None \<Rightarrow> (False, data)
      | Some userIndex \<Rightarrow>
          (True, data\<lparr>users := (users data)
             [userIndex := (users data ! userIndex)\<lparr>passwordHash := simpleHash ''password123''\<rparr>]\<rparr>))"

definition updateUserRole :: "AppData \<Rightarrow> string \<Rightarrow> Role \<Rightarrow> bool \<times> AppData" where
  "updateUserRole data uid r =
     (case findIndex (\<lambda>u. user_id u = uid) (users data) of
        None \<Rightarrow> (False, data)
      | Some userIndex \<Rightarrow>
          (let currentUser = users data ! userIndex in
           if role currentUser = ADMIN \<and> r = USER
              \<and> length (filter (\<lambda>u. role u = ADMIN) (users data)) \<le> 1
           then (False, data)
           else (True, data\<lparr>users := (users data)[userIndex := (users data ! userIndex)\<lparr>role := r\<rparr>]\<rparr>)))"

text \<open>The identifiers of the profiles a user owns: \<open>profileIdsToDelete\<close> in \<open>deleteUser\<close>.\<close>

definition profileIdsOf :: "AppData \<Rightarrow> string \<Rightarrow> string set" where
  "profileIdsOf data uid = set (map profile_id (filter (\<lambda>p. userId p = uid) (profiles data)))"

text \<open>Every identifier a snapshot holds, attachments included.\<close>

definition storeIds :: "AppData \<Rightarrow> string set" where
  "storeIds data =
     set (map user_id (users data)) \<union> set (map profile_id (profiles data))
     \<union> set (map tx_id (transactions data)) \<union> set (map cat_id (categories data))
     \<union> set (map src_id (incomeSources data))
     \<union> (\<Union>t\<in>set (transactions data).
          case attachments t of None \<Rightarrow> {} | Some as \<Rightarrow> set (map att_id as))"

subsection \<open>Sequences of operations\<close>

text \<open>
  The mutating operations the hook returns, with their arguments. The raw state setter
  \<open>setData\<close>, which the hook returns too, is not an operation of the store.
\<close>

datatype Operation =
    AddUser string string string
  | AddProfile "nat \<Rightarrow> string" string string string
  | AddTransaction string Transaction
  | AddMultipleTransactions "nat \<Rightarrow> string" "Transaction list"
  | UpdateTransaction Transaction
  | DeleteTransaction string
  | AddCategory string string string string
  | DeleteCategory string
  | AddIncomeSource string string string string
  | DeleteIncomeSource string
  | AddCurrency Currency
  | DeleteCurrency string
  | UpdateProfile Profile
  | DeleteProfile string
  | DeleteUser string
  | ResetPassword string
  | UpdateUserRole string Role

fun perform :: "Constants \<Rightarrow> AppData \<Rightarrow> Operation \<Rightarrow> AppData" where
  "perform K data (AddUser uuid em pw) = snd (addUser data uuid em pw)"
| "perform K data (AddProfile randomUUID uid nm cur) = snd (addProfile K data randomUUID uid nm cur)"
| "perform K data (AddTransaction uuid t) = addTransaction data uuid t"
| "perform K data (AddMultipleTransactions randomUUID ts) = addMultipleTransactions data randomUUID ts"
| "perform K data (UpdateTransaction t) = updateTransaction data t"
| "perform K data (DeleteTransaction tid) = deleteTransaction data tid"
| "perform K data (AddCategory uuid pid nm ic) = addCategory data uuid pid nm ic"
| "perform K data (DeleteCategory cid) = deleteCategory data cid"
| "perform K data (AddIncomeSource uuid pid nm ic) = addIncomeSource data uuid pid nm ic"
| "perform K data (DeleteIncomeSource sid) = deleteIncomeSource data sid"
| "perform K data (AddCurrency c) = addCurrency data c"
| "perform K data (DeleteCurrency c) = deleteCurrency data c"
| "perform K data (UpdateProfile p) = updateProfile data p"
| "perform K data (DeleteProfile pid) = deleteProfile data pid"
| "perform K data (DeleteUser uid) = deleteUser data uid"
| "perform K data (ResetPassword em) = snd (resetPassword data em)"
| "perform K data (UpdateUserRole uid r) = snd (updateUserRole data uid r)"

text \<open>The snapshot that a sequence of operations reaches from a given one.\<close>

fun run :: "Constants \<Rightarrow> AppData \<Rightarrow> Operation list \<Rightarrow> AppData" where
  "run K data [] = data"
| "run K data (op # ops) = run K (perform K data op) ops"

section \<open>Gates of the settings page (Settings.tsx)\<close>

text \<open>
  \<open>CurrencyManager\<close> renders one delete button per currency and disables it when the
  code is in \<open>usedCurrencies\<close>, the set of the profiles' currency codes. A disabled
  button does not call \<open>onDelete\<close>, so the click leaves the snapshot as it is.
\<close>

definition usedCurrencies :: "Profile list \<Rightarrow> string set" where
  "usedCurrencies ps = set (map currencyCode ps)"

definition CurrencyManager_onDelete :: "AppData \<Rightarrow> string \<Rightarrow> AppData" where
  "CurrencyManager_onDelete data c =
     (if c \<in> usedCurrencies (profiles data) then data else deleteCurrency data c)"

text \<open>
  \<open>UserManager\<close> renders one delete button per user and disables it unless the signed-in
  user is an Admin (\<open>isAdmin\<close>) and the row is another user's.
\<close>

definition UserManager_deleteEnabled :: "User \<Rightarrow> User \<Rightarrow> bool" where
  "UserManager_deleteEnabled currentUser user =
     (\<not> (\<not> (role currentUser = ADMIN) \<or> user_id user = user_id currentUser))"

text \<open>
  An operation as the settings page lets it through: \<open>deleteUser\<close> is called from an
  enabled delete button only, pressed by a signed-in user who is a user of the store. The
  other operations are taken as the store offers them.
\<close>

fun permitted :: "AppData \<Rightarrow> Operation \<Rightarrow> bool" where
  "permitted data (DeleteUser uid) =
     (\<exists>currentUser\<in>set (users data). \<exists>user\<in>set (users data).
        user_id user = uid \<and> UserManager_deleteEnabled currentUser user)"
| "permitted data _ = True"

text \<open>A sequence of operations as the settings page lets it through: \<open>None\<close> when it
  holds a call that the page does not make.\<close>

fun run_gated :: "Constants \<Rightarrow> AppData \<Rightarrow> Operation list \<Rightarrow> AppData option" where
  "run_gated K data [] = Some data"
| "run_gated K data (op # ops) =
     (if permitted data op then run_gated K (perform K data op) ops else None)"

text \<open>The invariant of the user list: where there is a user, there is an Admin.\<close>

definition adminExists :: "AppData \<Rightarrow> bool" where
  "adminExists data = (users data \<noteq> [] \<longrightarrow> (\<exists>u\<in>set (users data). role u = ADMIN))"

section \<open>CSV export and import (DataManagement in Settings.tsx)\<close>

text \<open>
  The component works on the transactions, categories and income sources of the active
  profile. The export builds the text of the file; the download is not modelled.
\<close>

definition profileTransactions :: "AppData \<Rightarrow> string \<Rightarrow> Transaction list" where
  "profileTransactions appData pid = filter (\<lambda>t. tx_profileId t = pid) (transactions appData)"

definition profileCategories :: "AppData \<Rightarrow> string \<Rightarrow> Category list" where
  "profileCategories appData pid = filter (\<lambda>c. cat_profileId c = pid) (categories appData)"

definition profileIncomeSources :: "AppData \<Rightarrow> string \<Rightarrow> IncomeSource list" where
  "profileIncomeSources appData pid = filter (\<lambda>s. src_profileId s = pid) (incomeSources appData)"

text \<open>\<open>s.replace(/"/g, '""')\<close>, \<open>s.replace(/^"|"$/g, '')\<close> and \<open>s.replace(/""/g, '"')\<close>.\<close>

definition doubleQuotes :: "string \<Rightarrow> string" where
  "doubleQuotes s = concat (map (\<lambda>c. if c = CHR 0x22 then [CHR 0x22, CHR 0x22] else [c]) s)"

definition stripOuterQuotes :: "string \<Rightarrow> string" where
  "stripOuterQuotes s =
     (let s1 = (case s of c # cs \<Rightarrow> if c = CHR 0x22 then cs else s | [] \<Rightarrow> s)
      in if s1 \<noteq> [] \<and> last s1 = CHR 0x22 then butlast s1 else s1)"

fun undoubleQuotes :: "string \<Rightarrow> string" where
  "undoubleQuotes (c # d # cs) =
     (if c = CHR 0x22 \<and> d = CHR 0x22 then CHR 0x22 # undoubleQuotes cs else c # undoubleQuotes (d # cs))"
| "undoubleQuotes cs = cs"

definition csvHeaders :: "string list" where
  "csvHeaders = [''date'', ''description'', ''amount'', ''type'', ''paymentMethod'', ''category'', ''source'']"

definition exportRow :: "Category list \<Rightarrow> IncomeSource list \<Rightarrow> Transaction \<Rightarrow> string" where
  "exportRow cats srcs t =
     (let category =
            (if tx_type t = ''expense''
             then (case find (\<lambda>c. Some (cat_id c) = categoryId t) cats of
                     Some c \<Rightarrow> cat_name c | None \<Rightarrow> [])
             else []);
          source =
            (if tx_type t = ''income''
             then (case find (\<lambda>s. Some (src_id s) = sourceId t) srcs of
                     Some s \<Rightarrow> src_name s | None \<Rightarrow> [])
             else []);
          description' = [CHR 0x22] @ doubleQuotes (description t) @ [CHR 0x22]
      in join '','' [hd (split_str CHR ''T'' (date t)), description', numToString (amount t),
                     tx_type t, paymentMethod t, category, source])"

definition handleExportCSV :: "AppData \<Rightarrow> string \<Rightarrow> string" where
  "handleExportCSV appData pid =
     (let rows = map (exportRow (profileCategories appData pid) (profileIncomeSources appData pid))
                   (profileTransactions appData pid)
      in join [CHR 0x0A] (join '','' csvHeaders # rows))"

text \<open>
  The import, from the text of the chosen file on (the handler of the file reader). An
  exception that the handler does not catch ends it: the store keeps its snapshot and no
  feedback is set. The row object that \<open>header.reduce\<close> builds is a map from column names
  to the fields of the line, a later column of the same name overriding an earlier one.
  The settings page hands the batch to \<open>addMultipleTransactions\<close> with the active profile
  put on every transaction.
\<close>

datatype Exception = RangeError | TypeError

datatype Feedback = FeedbackSuccess string | FeedbackError string

definition mkRow :: "string list \<Rightarrow> string list \<Rightarrow> (string \<rightharpoonup> string)" where
  "mkRow header data = foldl (\<lambda>obj (index, h). obj(h := nth_opt data index)) Map.empty (enumerate 0 header)"

text \<open>One pass of the loop body: \<open>Inr None\<close> for \<open>continue\<close>, \<open>Inr (Some t)\<close> for the pushed
  transaction (without identifier and profile), \<open>Inl\<close> for an exception.\<close>

definition importRow ::
  "Category list \<Rightarrow> IncomeSource list \<Rightarrow> string list \<Rightarrow> string \<Rightarrow> Exception + Transaction option" where
  "importRow cats srcs header line =
     (let data = split_str CHR '','' line;
          row = mkRow header data
      in if falsy (row ''date'') \<or> falsy (row ''description'')
            \<or> isNaN (parseFloat (toStr (row ''amount''))) \<or> falsy (row ''type'')
         then Inr None
         else
           let type' = toLowerCase (toStr (row ''type''));
               category = find (\<lambda>c. Some (toLowerCase (cat_name c)) = map_option toLowerCase (row ''category'')) cats;
               source = find (\<lambda>s. Some (toLowerCase (src_name s)) = map_option toLowerCase (row ''source'')) srcs
           in if type' = EXPENSE \<and> category = None then Inr None
              else if type' = INCOME \<and> source = None then Inr None
              else
                (case dateToISOString (toStr (row ''date'')) of
                   None \<Rightarrow> Inl RangeError
                 | Some date' \<Rightarrow>
                     (case row ''paymentMethod'' of
                        None \<Rightarrow> Inl TypeError
                      | Some pm \<Rightarrow>
                          Inr (Some
                            \<lparr>tx_id = [], tx_profileId = [], tx_type = type',
                             amount = parseFloat (toStr (row ''amount'')),
                             description = undoubleQuotes (stripOuterQuotes (toStr (row ''description''))),
                             date = date',
                             categoryId = (if type' = EXPENSE then map_option cat_id category else None),
                             sourceId = (if type' = INCOME then map_option src_id source else None),
                             paymentMethod = toLowerCase pm,
                             attachments = None\<rparr>))))"

fun importRows ::
  "Category list \<Rightarrow> IncomeSource list \<Rightarrow> string list \<Rightarrow> Transaction list \<Rightarrow> string list
     \<Rightarrow> Exception + Transaction list" where
  "importRows cats srcs header newTransactions [] = Inr newTransactions"
| "importRows cats srcs header newTransactions (line # lines) =
     (case importRow cats srcs header line of
        Inl e \<Rightarrow> Inl e
      | Inr None \<Rightarrow> importRows cats srcs header newTransactions lines
      | Inr (Some t) \<Rightarrow> importRows cats srcs header (newTransactions @ [t]) lines)"

definition requiredHeaders :: "string list" where
  "requiredHeaders = [''date'', ''description'', ''amount'', ''type'', ''paymentMethod'']"

definition handleImportCSV ::
  "AppData \<Rightarrow> string \<Rightarrow> (nat \<Rightarrow> string) \<Rightarrow> string \<Rightarrow> Exception + (Feedback \<times> AppData)" where
  "handleImportCSV appData pid randomUUID text =
     (let lines = filter (\<lambda>line. trim line \<noteq> []) (split_str (CHR 0x0A) text) in
      if length lines < 2
      then Inr (FeedbackError ''CSV file is empty or contains only a header.'', appData)
      else
        let header = map trim (split_str CHR '','' (hd lines)) in
        if \<not> list_all (\<lambda>h. h \<in> set header) requiredHeaders
        then Inr (FeedbackError
               (''CSV header is missing required columns. Required: '' @ join '', '' requiredHeaders),
               appData)
        else
          (case importRows (profileCategories appData pid) (profileIncomeSources appData pid)
                  header [] (tl lines) of
             Inl e \<Rightarrow> Inl e
           | Inr newTransactions \<Rightarrow>
               if length newTransactions > 0
               then Inr (FeedbackSuccess
                      (''Successfully imported '' @ show_nat (length newTransactions) @ '' transactions.''),
                      addMultipleTransactions appData randomUUID
                        (map (\<lambda>t. t\<lparr>tx_profileId := pid\<rparr>) newTransactions))
               else Inr (FeedbackError
                      ''No valid transactions found to import. Check file format and ensure categories/sources exist.'',
                      appData)))"

section \<open>Sample snapshots\<close>

text \<open>
  Concrete values on which the theorems below are instantiated. \<open>sampleConstants\<close> stands
  in for the constants module with two category templates, one income source template and
  two currencies.
\<close>

definition sampleConstants :: Constants where
  "sampleConstants =
     \<lparr>DEFAULT_CATEGORIES =
        [\<lparr>tpl_name = ''Food'', tpl_icon = ''Food'', tpl_isDefault = Some True\<rparr>,
         \<lparr>tpl_name = ''Housing'', tpl_icon = ''Home'', tpl_isDefault = Some True\<rparr>],
      DEFAULT_INCOME_SOURCES =
        [\<lparr>tpl_name = ''Salary'', tpl_icon = ''Briefcase'', tpl_isDefault = Some True\<rparr>],
      DEFAULT_CURRENCIES =
        [\<lparr>code = ''USD'', symbol = ''$'', currency_name = ''US Dollar''\<rparr>,
         \<lparr>code = ''EUR'', symbol = ''E'', currency_name = ''Euro''\<rparr>]\<rparr>"

definition ann :: User where
  "ann = \<lparr>user_id = ''u1'', email = ''Ann@example.com'', passwordHash = ''h1'', role = ADMIN\<rparr>"

definition bob :: User where
  "bob = \<lparr>user_id = ''u2'', email = ''bob@example.com'', passwordHash = ''h2'', role = USER\<rparr>"

definition sampleTransaction :: "string \<Rightarrow> string \<Rightarrow> string \<Rightarrow> Transaction" where
  "sampleTransaction i pid d =
     \<lparr>tx_id = i, tx_profileId = pid, tx_type = EXPENSE, amount = Finite 10 0, description = d,
      date = ''2024-01-05T00:00:00.000Z'', categoryId = Some ''c1'', sourceId = None,
      paymentMethod = ''cash'', attachments = None\<rparr>"

text \<open>Ann is the only Admin; she owns two profiles, Bob one.\<close>

definition oneAdmin :: AppData where
  "oneAdmin =
     \<lparr>users = [ann, bob],
      profiles =
        [\<lparr>profile_id = ''p1'', profile_name = ''Personal'', currencyCode = ''USD'', userId = ''u1''\<rparr>,
         \<lparr>profile_id = ''p2'', profile_name = ''Personal'', currencyCode = ''USD'', userId = ''u2''\<rparr>,
         \<lparr>profile_id = ''p3'', profile_name = ''Work'', currencyCode = ''USD'', userId = ''u1''\<rparr>],
      transactions =
        [sampleTransaction ''t1'' ''p1'' ''Lunch'', sampleTransaction ''t2'' ''p2'' ''Rent'',
         sampleTransaction ''t3'' ''p3'' ''Train'', sampleTransaction ''t4'' ''p2'' ''Books''],
      categories =
        [\<lparr>cat_id = ''c1'', cat_name = ''Food'', cat_icon = ''Food'', cat_isDefault = Some True,
          cat_profileId = ''p1''\<rparr>,
         \<lparr>cat_id = ''c2'', cat_name = ''Food'', cat_icon = ''Food'', cat_isDefault = Some True,
          cat_profileId = ''p2''\<rparr>],
      incomeSources =
        [\<lparr>src_id = ''s1'', src_name = ''Salary'', src_icon = ''Briefcase'', src_isDefault = Some True,
          src_profileId = ''p1''\<rparr>,
         \<lparr>src_id = ''s2'', src_name = ''Salary'', src_icon = ''Briefcase'', src_isDefault = Some True,
          src_profileId = ''p2''\<rparr>],
      currencies = DEFAULT_CURRENCIES sampleConstants\<rparr>"

definition twoAdmins :: AppData where
  "twoAdmins = oneAdmin\<lparr>users := [ann, bob\<lparr>role := ADMIN\<rparr>]\<rparr>"

text \<open>Two sign-ups, then the first user, the only Admin, is deleted.\<close>

definition lastAdminDeleted :: "Operation list" where
  "lastAdminDeleted =
     [AddUser ''u1'' ''Ann@example.com'' ''h1'', AddUser ''u2'' ''bob@example.com'' ''h2'',
      DeleteUser ''u1'']"

text \<open>Two sign-ups, the second user is made an Admin and then deletes the first.\<close>

definition secondAdminRemains :: "Operation list" where
  "secondAdminRemains =
     [AddUser ''u1'' ''Ann@example.com'' ''h1'', AddUser ''u2'' ''bob@example.com'' ''h2'',
      UpdateUserRole ''u2'' ADMIN, DeleteUser ''u1'']"

text \<open>Draws of identifiers: the letter, then as many \<open>x\<close> as the draw's number.\<close>

definition draws :: "char \<Rightarrow> nat \<Rightarrow> string" where
  "draws c i = c # replicate i CHR ''x''"

definition seededOnce :: AppData where
  "seededOnce =
     snd (addProfile sampleConstants (initialData sampleConstants) (draws CHR ''p'') ''u1'' ''Personal'' ''USD'')"

text \<open>The header line that the export writes, and Ann's first profile with one expense whose
  description has a comma.\<close>

definition csvHeaderLine :: string where
  "csvHeaderLine = ''date,description,amount,type,paymentMethod,category,source''"

definition commaStore :: AppData where
  "commaStore = oneAdmin\<lparr>transactions := [sampleTransaction ''t1'' ''p1'' ''Lunch, dinner'']\<rparr>"

section \<open>Lemmas on lists and on the built-ins\<close>

lemma findIndex_None_iff: "findIndex P xs = None \<longleftrightarrow> (\<forall>x\<in>set xs. \<not> P x)"
  by (induction xs) auto

lemma findIndex_SomeD:
  "findIndex P xs = Some i \<Longrightarrow> i < length xs \<and> P (xs ! i) \<and> (\<forall>j<i. \<not> P (xs ! j))"
proof (induction xs arbitrary: i)
  case Nil
  then show ?case by simp
next
  case (Cons x xs)
  show ?case
  proof (cases "P x")
    case True
    with Cons.prems show ?thesis by simp
  next
    case False
    with Cons.prems obtain k where k: "findIndex P xs = Some k" "i = Suc k"
      by auto
    from Cons.IH [OF k(1)] False k(2) show ?thesis
      by (auto simp: nth_Cons split: nat.splits)
  qed
qed

lemma findIndex_distinct_key:
  assumes "distinct (map f xs)" and "a \<in> set xs"
  shows "\<exists>i. findIndex (\<lambda>x. f x = f a) xs = Some i \<and> i < length xs \<and> xs ! i = a"
proof -
  from assms(2) have "findIndex (\<lambda>x. f x = f a) xs \<noteq> None"
    by (auto simp: findIndex_None_iff)
  then obtain i where i: "findIndex (\<lambda>x. f x = f a) xs = Some i" by auto
  from findIndex_SomeD [OF i] have il: "i < length xs" and fi: "f (xs ! i) = f a" by auto
  from assms(2) obtain k where k: "k < length xs" "xs ! k = a" by (auto simp: in_set_conv_nth)
  from assms(1) il k fi have "i = k"
    by (metis distinct_conv_nth length_map nth_map)
  with i il k show ?thesis by auto
qed

lemma list_update_distinct_key:
  assumes "distinct (map f xs)" and "i < length xs"
  shows "xs[i := y] = map (\<lambda>x. if f x = f (xs ! i) then y else x) xs"
proof (rule nth_equalityI)
  show "length (xs[i := y]) = length (map (\<lambda>x. if f x = f (xs ! i) then y else x) xs)" by simp
next
  fix k assume "k < length (xs[i := y])"
  then have k: "k < length xs" by simp
  have "f (xs ! k) = f (xs ! i) \<longleftrightarrow> k = i"
    using assms k by (metis distinct_conv_nth length_map nth_map)
  with k assms(2) show "xs[i := y] ! k = map (\<lambda>x. if f x = f (xs ! i) then y else x) xs ! k"
    by (auto simp: nth_list_update)
qed

lemma filter_filter_absorb: "(\<And>x. Q x \<Longrightarrow> P x) \<Longrightarrow> filter Q (filter P xs) = filter Q xs"
  by (induction xs) auto

lemma filter_list_update_length:
  "length (filter P xs) \<le> Suc (length (filter P (xs[i := y])))"
proof (induction xs arbitrary: i)
  case Nil
  then show ?case by simp
next
  case (Cons x xs)
  show ?case
  proof (cases i)
    case 0
    then show ?thesis by simp
  next
    case (Suc k)
    with Cons.IH [of k] show ?thesis by simp
  qed
qed

lemma map_enumerate_index: "map (\<lambda>(i, x). f i) (enumerate n xs) = map f [n..<n + length xs]"
proof -
  have "map (\<lambda>(i, x). f i) (enumerate n xs) = map f (map fst (enumerate n xs))"
    by (simp add: case_prod_unfold comp_def del: map_fst_enumerate)
  then show ?thesis by (simp only: map_fst_enumerate)
qed

lemma map_enumerate_value: "map (\<lambda>(i, x). g x) (enumerate n xs) = map g xs"
  by (induction xs arbitrary: n) simp_all

section \<open>First-user admin rule\<close>

text \<open>
  C6. The user that \<open>addUser\<close> returns, and appends to the user list, has role Admin when
  the store held no user at the call and role User otherwise, whatever the identifier,
  email and password hash.
\<close>

theorem addUser_role_first_admin:
  "role (fst (addUser data uuid em pw)) = (if users data = [] then ADMIN else USER)
   \<and> (role (fst (addUser data uuid em pw)) = ADMIN) = (users data = [])
   \<and> users (snd (addUser data uuid em pw)) = users data @ [fst (addUser data uuid em pw)]"
  by (simp add: addUser_def Let_def)

section \<open>Last-admin demotion guard\<close>

text \<open>
  C2. In a store whose user identifiers are distinct, for a user \<open>a\<close> of the store:
  when \<open>a\<close> is the only Admin, \<open>updateUserRole\<close> to User on \<open>a\<close>'s identifier returns
  false and the snapshot is unchanged; when there are two Admins or more and \<open>a\<close> is one,
  it returns true and the new user list differs from the old one in \<open>a\<close>'s role only; every
  other transition (User to Admin, Admin to Admin, User to User) returns true and sets
  exactly \<open>a\<close>'s role.
\<close>

theorem updateUserRole_last_admin_guard:
  assumes "distinct (map user_id (users data))" and "a \<in> set (users data)"
  shows "(role a = ADMIN \<and> length (filter (\<lambda>u. role u = ADMIN) (users data)) = 1
            \<longrightarrow> updateUserRole data (user_id a) USER = (False, data))
       \<and> (role a = ADMIN \<and> 2 \<le> length (filter (\<lambda>u. role u = ADMIN) (users data))
            \<longrightarrow> updateUserRole data (user_id a) USER =
                (True, data\<lparr>users := map (\<lambda>u. if user_id u = user_id a then u\<lparr>role := USER\<rparr> else u) (users data)\<rparr>))
       \<and> (\<forall>r. \<not> (role a = ADMIN \<and> r = USER)
            \<longrightarrow> updateUserRole data (user_id a) r =
                (True, data\<lparr>users := map (\<lambda>u. if user_id u = user_id a then u\<lparr>role := r\<rparr> else u) (users data)\<rparr>))"
proof -
  from findIndex_distinct_key [OF assms] obtain i where
    i: "findIndex (\<lambda>u. user_id u = user_id a) (users data) = Some i"
       "i < length (users data)" "users data ! i = a"
    by blast
  have upd: "(users data)[i := a\<lparr>role := r\<rparr>] =
      map (\<lambda>u. if user_id u = user_id a then a\<lparr>role := r\<rparr> else u) (users data)" for r
    using list_update_distinct_key [OF assms(1) i(2), of "a\<lparr>role := r\<rparr>"] i(3) by simp
  have upd': "map (\<lambda>u. if user_id u = user_id a then a\<lparr>role := r\<rparr> else u) (users data) =
      map (\<lambda>u. if user_id u = user_id a then u\<lparr>role := r\<rparr> else u) (users data)" for r
  proof (rule map_cong [OF refl])
    fix u assume "u \<in> set (users data)"
    with assms have "user_id u = user_id a \<Longrightarrow> u = a"
      by (meson distinct_map inj_onD)
    then show "(if user_id u = user_id a then a\<lparr>role := r\<rparr> else u) =
               (if user_id u = user_id a then u\<lparr>role := r\<rparr> else u)" by auto
  qed
  show ?thesis
    using i upd upd' by (auto simp: updateUserRole_def Let_def)
qed

theorem updateUserRole_last_admin_guard_witness:
  "updateUserRole oneAdmin ''u1'' USER = (False, oneAdmin)
   \<and> updateUserRole twoAdmins ''u1'' USER =
       (True, twoAdmins\<lparr>users := [ann\<lparr>role := USER\<rparr>, bob\<lparr>role := ADMIN\<rparr>]\<rparr>)
   \<and> updateUserRole oneAdmin ''u2'' ADMIN = (True, oneAdmin\<lparr>users := [ann, bob\<lparr>role := ADMIN\<rparr>]\<rparr>)
   \<and> updateUserRole oneAdmin ''u2'' USER = (True, oneAdmin)
   \<and> updateUserRole oneAdmin ''u1'' ADMIN = (True, oneAdmin)"
proof -
  have d1: "distinct (map user_id (users oneAdmin))" and d2: "distinct (map user_id (users twoAdmins))"
    by (simp_all add: oneAdmin_def twoAdmins_def ann_def bob_def)
  have m1: "ann \<in> set (users oneAdmin)" "bob \<in> set (users oneAdmin)" and m2: "ann \<in> set (users twoAdmins)"
    by (simp_all add: oneAdmin_def twoAdmins_def)
  from updateUserRole_last_admin_guard [OF d1 m1(1)] updateUserRole_last_admin_guard [OF d1 m1(2)]
    updateUserRole_last_admin_guard [OF d2 m2]
  show ?thesis
    by (simp add: oneAdmin_def twoAdmins_def ann_def bob_def)
qed

section \<open>Cascade of deleteUser\<close>

lemma deleteUser_fields:
  "users (deleteUser data uid) = filter (\<lambda>u. user_id u \<noteq> uid) (users data)"
  "profiles (deleteUser data uid) = filter (\<lambda>p. userId p \<noteq> uid) (profiles data)"
  "transactions (deleteUser data uid) =
     filter (\<lambda>t. tx_profileId t \<notin> profileIdsOf data uid) (transactions data)"
  "categories (deleteUser data uid) =
     filter (\<lambda>c. cat_profileId c \<notin> profileIdsOf data uid) (categories data)"
  "incomeSources (deleteUser data uid) =
     filter (\<lambda>s. src_profileId s \<notin> profileIdsOf data uid) (incomeSources data)"
  "currencies (deleteUser data uid) = currencies data"
  by (simp_all add: deleteUser_def profileIdsOf_def Let_def)

lemma profileIdsOf_disjoint:
  assumes "v \<noteq> uid" and "distinct (map profile_id (profiles data))"
  shows "x \<in> profileIdsOf data v \<Longrightarrow> x \<notin> profileIdsOf data uid"
proof
  assume "x \<in> profileIdsOf data v" and "x \<in> profileIdsOf data uid"
  then obtain p q where p: "p \<in> set (profiles data)" "userId p = v" "profile_id p = x"
    and q: "q \<in> set (profiles data)" "userId q = uid" "profile_id q = x"
    by (auto simp: profileIdsOf_def)
  from assms(2) have "inj_on profile_id (set (profiles data))"
    by (simp add: distinct_map)
  from inj_onD [OF this, of p q] p(1,3) q(1,3) have "p = q"
    by simp
  with p(2) q(2) assms(1) show False by simp
qed

lemma deleteUser_other_users:
  assumes "v \<noteq> uid"
  shows "filter (\<lambda>u. user_id u = v) (users (deleteUser data uid)) = filter (\<lambda>u. user_id u = v) (users data)"
    and "filter (\<lambda>p. userId p = v) (profiles (deleteUser data uid)) = filter (\<lambda>p. userId p = v) (profiles data)"
    and "profileIdsOf (deleteUser data uid) v = profileIdsOf data v"
proof -
  show "filter (\<lambda>u. user_id u = v) (users (deleteUser data uid)) = filter (\<lambda>u. user_id u = v) (users data)"
    unfolding deleteUser_fields using assms by (intro filter_filter_absorb) simp
  show p: "filter (\<lambda>p. userId p = v) (profiles (deleteUser data uid)) = filter (\<lambda>p. userId p = v) (profiles data)"
    unfolding deleteUser_fields using assms by (intro filter_filter_absorb) simp
  show "profileIdsOf (deleteUser data uid) v = profileIdsOf data v"
    unfolding profileIdsOf_def p ..
qed

lemma deleteUser_other_owned:
  assumes "v \<noteq> uid" and "distinct (map profile_id (profiles data))"
  shows "filter (\<lambda>x. f x \<in> profileIdsOf data v) (filter (\<lambda>x. f x \<notin> profileIdsOf data uid) xs)
      = filter (\<lambda>x. f x \<in> profileIdsOf data v) xs"
  using profileIdsOf_disjoint [OF assms] by (intro filter_filter_absorb) blast

text \<open>
  C3. \<open>deleteUser\<close> keeps, in their order, exactly the users with another identifier, the
  profiles of other owners, and the transactions, categories and income sources whose
  profile is not one of the deleted user's profiles; the currencies are unchanged. For
  every other user, the user, the profiles they own and, where profile identifiers are
  distinct, the transactions, categories and income sources of those profiles are the
  same before and after.
\<close>

theorem deleteUser_cascade:
  "users (deleteUser data uid) = filter (\<lambda>u. user_id u \<noteq> uid) (users data)
   \<and> profiles (deleteUser data uid) = filter (\<lambda>p. userId p \<noteq> uid) (profiles data)
   \<and> transactions (deleteUser data uid) =
       filter (\<lambda>t. tx_profileId t \<notin> profileIdsOf data uid) (transactions data)
   \<and> categories (deleteUser data uid) =
       filter (\<lambda>c. cat_profileId c \<notin> profileIdsOf data uid) (categories data)
   \<and> incomeSources (deleteUser data uid) =
       filter (\<lambda>s. src_profileId s \<notin> profileIdsOf data uid) (incomeSources data)
   \<and> currencies (deleteUser data uid) = currencies data
   \<and> (\<forall>v. v \<noteq> uid \<longrightarrow>
         filter (\<lambda>u. user_id u = v) (users (deleteUser data uid)) = filter (\<lambda>u. user_id u = v) (users data)
       \<and> filter (\<lambda>p. userId p = v) (profiles (deleteUser data uid)) = filter (\<lambda>p. userId p = v) (profiles data)
       \<and> profileIdsOf (deleteUser data uid) v = profileIdsOf data v
       \<and> (distinct (map profile_id (profiles data)) \<longrightarrow>
            filter (\<lambda>t. tx_profileId t \<in> profileIdsOf data v) (transactions (deleteUser data uid))
              = filter (\<lambda>t. tx_profileId t \<in> profileIdsOf data v) (transactions data)
          \<and> filter (\<lambda>c. cat_profileId c \<in> profileIdsOf data v) (categories (deleteUser data uid))
              = filter (\<lambda>c. cat_profileId c \<in> profileIdsOf data v) (categories data)
          \<and> filter (\<lambda>s. src_profileId s \<in> profileIdsOf data v) (incomeSources (deleteUser data uid))
              = filter (\<lambda>s. src_profileId s \<in> profileIdsOf data v) (incomeSources data)))"
proof (intro conjI allI impI)
  fix v assume v: "v \<noteq> uid"
  show "filter (\<lambda>u. user_id u = v) (users (deleteUser data uid)) = filter (\<lambda>u. user_id u = v) (users data)"
    "filter (\<lambda>p. userId p = v) (profiles (deleteUser data uid)) = filter (\<lambda>p. userId p = v) (profiles data)"
    "profileIdsOf (deleteUser data uid) v = profileIdsOf data v"
    by (rule deleteUser_other_users [OF v])+
  assume d: "distinct (map profile_id (profiles data))"
  show "filter (\<lambda>t. tx_profileId t \<in> profileIdsOf data v) (transactions (deleteUser data uid))
              = filter (\<lambda>t. tx_profileId t \<in> profileIdsOf data v) (transactions data)"
    unfolding deleteUser_fields by (rule deleteUser_other_owned [OF v d])
  show "filter (\<lambda>c. cat_profileId c \<in> profileIdsOf data v) (categories (deleteUser data uid))
              = filter (\<lambda>c. cat_profileId c \<in> profileIdsOf data v) (categories data)"
    unfolding deleteUser_fields by (rule deleteUser_other_owned [OF v d])
  show "filter (\<lambda>s. src_profileId s \<in> profileIdsOf data v) (incomeSources (deleteUser data uid))
              = filter (\<lambda>s. src_profileId s \<in> profileIdsOf data v) (incomeSources data)"
    unfolding deleteUser_fields by (rule deleteUser_other_owned [OF v d])
qed (rule deleteUser_fields)+

theorem deleteUser_cascade_witness:
  "users (deleteUser oneAdmin ''u1'') = [bob]
   \<and> map profile_id (profiles (deleteUser oneAdmin ''u1'')) = [''p2'']
   \<and> map tx_id (transactions (deleteUser oneAdmin ''u1'')) = [''t2'', ''t4'']
   \<and> map cat_id (categories (deleteUser oneAdmin ''u1'')) = [''c2'']
   \<and> map src_id (incomeSources (deleteUser oneAdmin ''u1'')) = [''s2'']
   \<and> filter (\<lambda>t. tx_profileId t \<in> profileIdsOf oneAdmin ''u2'') (transactions (deleteUser oneAdmin ''u1''))
       = filter (\<lambda>t. tx_profileId t \<in> profileIdsOf oneAdmin ''u2'') (transactions oneAdmin)"
proof -
  have d: "distinct (map profile_id (profiles oneAdmin))"
    by (simp add: oneAdmin_def)
  have ids: "profileIdsOf oneAdmin ''u1'' = {''p1'', ''p3''}"
    by (auto simp: profileIdsOf_def oneAdmin_def)
  have ne: "''u2'' \<noteq> ''u1''" by simp
  note c = deleteUser_cascade [of oneAdmin "''u1''"]
  note kept = c [THEN conjunct1] c [THEN conjunct2, THEN conjunct1]
    c [THEN conjunct2, THEN conjunct2, THEN conjunct1]
    c [THEN conjunct2, THEN conjunct2, THEN conjunct2, THEN conjunct1]
    c [THEN conjunct2, THEN conjunct2, THEN conjunct2, THEN conjunct2, THEN conjunct1]
  note others = c [THEN conjunct2, THEN conjunct2, THEN conjunct2, THEN conjunct2, THEN conjunct2,
    THEN conjunct2, THEN spec, of "''u2''", THEN mp, OF ne]
  note other = others [THEN conjunct2, THEN conjunct2, THEN conjunct2, THEN mp, OF d, THEN conjunct1]
  have "users (deleteUser oneAdmin ''u1'') = [bob]"
    "map profile_id (profiles (deleteUser oneAdmin ''u1'')) = [''p2'']"
    "map tx_id (transactions (deleteUser oneAdmin ''u1'')) = [''t2'', ''t4'']"
    "map cat_id (categories (deleteUser oneAdmin ''u1'')) = [''c2'']"
    "map src_id (incomeSources (deleteUser oneAdmin ''u1'')) = [''s2'']"
    unfolding kept ids by (simp_all add: oneAdmin_def sampleTransaction_def ann_def bob_def)
  with other show ?thesis by (intro conjI)
qed

section \<open>Deleting a currency\<close>

text \<open>
  C5 as stated fails: \<open>deleteCurrency\<close> removes a currency that a profile references.
\<close>

theorem deleteCurrency_referenced_counterexample:
  "map currencyCode (profiles oneAdmin) = [''USD'', ''USD'', ''USD'']
   \<and> map code (currencies oneAdmin) = [''USD'', ''EUR'']
   \<and> map code (currencies (deleteCurrency oneAdmin ''USD'')) = [''EUR'']
   \<and> deleteCurrency oneAdmin ''USD'' \<noteq> oneAdmin"
proof -
  have "map code (currencies (deleteCurrency oneAdmin ''USD'')) = [''EUR'']"
    and c: "map code (currencies oneAdmin) = [''USD'', ''EUR'']"
    by (simp_all add: deleteCurrency_def oneAdmin_def sampleConstants_def)
  then have "deleteCurrency oneAdmin ''USD'' \<noteq> oneAdmin" by auto
  with c show ?thesis
    by (simp add: deleteCurrency_def oneAdmin_def sampleConstants_def)
qed

text \<open>
  C5, amended. \<open>deleteCurrency\<close> keeps exactly the currencies with another code, whether
  or not a profile references the code, and changes nothing else. The block is the
  currency manager's: its delete button leaves the snapshot unchanged for a code that a
  profile references, and calls \<open>deleteCurrency\<close> for a code that none references.
\<close>

theorem deleteCurrency_gate:
  "currencies (deleteCurrency data c) = filter (\<lambda>x. code x \<noteq> c) (currencies data)
   \<and> users (deleteCurrency data c) = users data
   \<and> profiles (deleteCurrency data c) = profiles data
   \<and> transactions (deleteCurrency data c) = transactions data
   \<and> categories (deleteCurrency data c) = categories data
   \<and> incomeSources (deleteCurrency data c) = incomeSources data
   \<and> ((\<exists>p\<in>set (profiles data). currencyCode p = c) \<longrightarrow> CurrencyManager_onDelete data c = data)
   \<and> (\<not> (\<exists>p\<in>set (profiles data). currencyCode p = c) \<longrightarrow>
        CurrencyManager_onDelete data c = deleteCurrency data c)"
  by (auto simp: deleteCurrency_def CurrencyManager_onDelete_def usedCurrencies_def)

theorem deleteCurrency_gate_witness:
  "CurrencyManager_onDelete oneAdmin ''USD'' = oneAdmin
   \<and> map code (currencies (CurrencyManager_onDelete oneAdmin ''EUR'')) = [''USD'']
   \<and> profiles (CurrencyManager_onDelete oneAdmin ''EUR'') = profiles oneAdmin"
proof -
  have used: "\<exists>p\<in>set (profiles oneAdmin). currencyCode p = ''USD''"
    and unused: "\<not> (\<exists>p\<in>set (profiles oneAdmin). currencyCode p = ''EUR'')"
    by (simp_all add: oneAdmin_def)
  from deleteCurrency_gate [of oneAdmin "''USD''"] deleteCurrency_gate [of oneAdmin "''EUR''"] used unused
  show ?thesis
    by (simp add: oneAdmin_def sampleConstants_def)
qed

section \<open>updateTransaction\<close>

text \<open>
  C9. When no stored transaction has the identifier of the given one, \<open>updateTransaction\<close>
  returns the snapshot unchanged. In every case the transaction list keeps its length,
  each position whose transaction has that identifier holds the given transaction, each
  other position is unchanged, and so are the other five collections.
\<close>

theorem updateTransaction_absent_noop:
  "(tx_id u \<notin> tx_id ` set (transactions data) \<longrightarrow> updateTransaction data u = data)
   \<and> length (transactions (updateTransaction data u)) = length (transactions data)
   \<and> (\<forall>i<length (transactions data).
         transactions (updateTransaction data u) ! i =
           (if tx_id (transactions data ! i) = tx_id u then u else transactions data ! i))
   \<and> users (updateTransaction data u) = users data
   \<and> profiles (updateTransaction data u) = profiles data
   \<and> categories (updateTransaction data u) = categories data
   \<and> incomeSources (updateTransaction data u) = incomeSources data
   \<and> currencies (updateTransaction data u) = currencies data"
proof -
  have "map (\<lambda>t. if tx_id t = tx_id u then u else t) (transactions data) = transactions data"
    if "tx_id u \<notin> tx_id ` set (transactions data)"
  proof -
    from that have "tx_id t \<noteq> tx_id u" if "t \<in> set (transactions data)" for t
      using that by (metis imageI)
    then show ?thesis by (intro map_idI) simp
  qed
  then show ?thesis
    by (simp add: updateTransaction_def)
qed

theorem updateTransaction_absent_noop_witness:
  "updateTransaction oneAdmin (sampleTransaction ''t9'' ''p1'' ''Dinner'') = oneAdmin
   \<and> transactions (updateTransaction oneAdmin (sampleTransaction ''t2'' ''p2'' ''Dinner'')) =
       [sampleTransaction ''t1'' ''p1'' ''Lunch'', sampleTransaction ''t2'' ''p2'' ''Dinner'',
        sampleTransaction ''t3'' ''p3'' ''Train'', sampleTransaction ''t4'' ''p2'' ''Books'']"
proof -
  have absent: "tx_id (sampleTransaction ''t9'' ''p1'' ''Dinner'') \<notin> tx_id ` set (transactions oneAdmin)"
    by (simp add: oneAdmin_def sampleTransaction_def)
  from updateTransaction_absent_noop [of "sampleTransaction ''t9'' ''p1'' ''Dinner''" oneAdmin] absent
  have "updateTransaction oneAdmin (sampleTransaction ''t9'' ''p1'' ''Dinner'') = oneAdmin"
    by blast
  then show ?thesis
    by (simp add: updateTransaction_def oneAdmin_def sampleTransaction_def)
qed

section \<open>resetPassword\<close>

text \<open>
  C10. When no user's email equals the given one up to case, \<open>resetPassword\<close> returns
  false and the snapshot unchanged. When some user's does, it returns true and the new
  snapshot differs in the password hash of the first such user only, which becomes the
  hash of the default password. In both cases the identifiers, emails and roles of the
  users and the other five collections are unchanged.
\<close>

theorem resetPassword_unknown_email:
  "((\<forall>u\<in>set (users data). toLowerCase (email u) \<noteq> toLowerCase em)
       \<longrightarrow> resetPassword data em = (False, data))
   \<and> ((\<exists>u\<in>set (users data). toLowerCase (email u) = toLowerCase em)
       \<longrightarrow> (\<exists>i<length (users data).
             toLowerCase (email (users data ! i)) = toLowerCase em
           \<and> (\<forall>j<i. toLowerCase (email (users data ! j)) \<noteq> toLowerCase em)
           \<and> resetPassword data em =
               (True, data\<lparr>users := (users data)
                  [i := (users data ! i)\<lparr>passwordHash := simpleHash ''password123''\<rparr>]\<rparr>)))
   \<and> map user_id (users (snd (resetPassword data em))) = map user_id (users data)
   \<and> map email (users (snd (resetPassword data em))) = map email (users data)
   \<and> map role (users (snd (resetPassword data em))) = map role (users data)
   \<and> profiles (snd (resetPassword data em)) = profiles data
   \<and> transactions (snd (resetPassword data em)) = transactions data
   \<and> categories (snd (resetPassword data em)) = categories data
   \<and> incomeSources (snd (resetPassword data em)) = incomeSources data
   \<and> currencies (snd (resetPassword data em)) = currencies data"
proof -
  let ?P = "\<lambda>u. toLowerCase (email u) = toLowerCase em"
  have none: "resetPassword data em = (False, data)" if "\<forall>u\<in>set (users data). \<not> ?P u"
    using that findIndex_None_iff [of ?P "users data"] by (simp add: resetPassword_def)
  have some: "\<exists>i<length (users data). ?P (users data ! i) \<and> (\<forall>j<i. \<not> ?P (users data ! j))
      \<and> resetPassword data em =
         (True, data\<lparr>users := (users data)[i := (users data ! i)\<lparr>passwordHash := simpleHash ''password123''\<rparr>]\<rparr>)"
    if "\<exists>u\<in>set (users data). ?P u"
  proof -
    from that have "findIndex ?P (users data) \<noteq> None"
      by (simp add: findIndex_None_iff)
    then obtain i where i: "findIndex ?P (users data) = Some i" by auto
    from findIndex_SomeD [OF i] i show ?thesis
      by (auto simp: resetPassword_def)
  qed
  have upd: "map f (xs[i := (xs ! i)\<lparr>passwordHash := h\<rparr>]) = map f xs"
    if "\<And>u. f (u\<lparr>passwordHash := h\<rparr>) = f u" for f :: "User \<Rightarrow> 'b" and xs i h
    using that by (cases "i < length xs") (simp_all add: map_update list_update_same_conv list_update_beyond)
  have frame: "map user_id (users (snd (resetPassword data em))) = map user_id (users data)"
    "map email (users (snd (resetPassword data em))) = map email (users data)"
    "map role (users (snd (resetPassword data em))) = map role (users data)"
    "profiles (snd (resetPassword data em)) = profiles data"
    "transactions (snd (resetPassword data em)) = transactions data"
    "categories (snd (resetPassword data em)) = categories data"
    "incomeSources (snd (resetPassword data em)) = incomeSources data"
    "currencies (snd (resetPassword data em)) = currencies data"
    by (simp_all add: resetPassword_def upd split: option.splits)
  show ?thesis
    apply (intro conjI impI)
    using none apply blast
    using some apply blast
    using frame apply simp_all
    done
qed

theorem resetPassword_unknown_email_witness:
  "resetPassword oneAdmin ''carol@example.com'' = (False, oneAdmin)
   \<and> resetPassword oneAdmin ''ANN@EXAMPLE.COM'' =
       (True, oneAdmin\<lparr>users := [ann\<lparr>passwordHash := simpleHash ''password123''\<rparr>, bob]\<rparr>)"
proof -
  have lc: "map (\<lambda>u. toLowerCase (email u)) (users oneAdmin) = [''ann@example.com'', ''bob@example.com'']"
    "toLowerCase ''carol@example.com'' = ''carol@example.com''"
    "toLowerCase ''ANN@EXAMPLE.COM'' = ''ann@example.com''"
    by (simp_all add: oneAdmin_def ann_def bob_def toLowerCase_def toLowerCase_char_def Let_def)
  then have none: "\<forall>u\<in>set (users oneAdmin). toLowerCase (email u) \<noteq> toLowerCase ''carol@example.com''"
    by (simp add: oneAdmin_def)
  from resetPassword_unknown_email [of oneAdmin "''carol@example.com''"] none
  have "resetPassword oneAdmin ''carol@example.com'' = (False, oneAdmin)"
    by blast
  moreover from lc have "resetPassword oneAdmin ''ANN@EXAMPLE.COM'' =
       (True, oneAdmin\<lparr>users := [ann\<lparr>passwordHash := simpleHash ''password123''\<rparr>, bob]\<rparr>)"
    by (simp add: resetPassword_def oneAdmin_def)
  ultimately show ?thesis by simp
qed

section \<open>Existence of an Admin\<close>

lemma adminExists_users_cong: "users data' = users data \<Longrightarrow> adminExists data' = adminExists data"
  by (simp add: adminExists_def)

lemma adminExists_addUser: "adminExists data \<Longrightarrow> adminExists (snd (addUser data uuid em pw))"
  by (auto simp: adminExists_def addUser_def Let_def)

lemma adminExists_roles:
  "adminExists d \<longleftrightarrow> (map role (users d) \<noteq> [] \<longrightarrow> ADMIN \<in> set (map role (users d)))"
  unfolding adminExists_def by (simp add: image_iff) metis

lemma adminExists_resetPassword: "adminExists data \<Longrightarrow> adminExists (snd (resetPassword data em))"
proof -
  have "map role (xs[i := (xs ! i)\<lparr>passwordHash := h\<rparr>]) = map role xs" for xs :: "User list" and i h
    by (cases "i < length xs") (simp_all add: map_update list_update_same_conv list_update_beyond)
  then have "map role (users (snd (resetPassword data em))) = map role (users data)"
    by (simp add: resetPassword_def split: option.splits)
  then show "adminExists data \<Longrightarrow> adminExists (snd (resetPassword data em))"
    by (simp only: adminExists_roles)
qed

lemma adminExists_updateUserRole:
  assumes "adminExists data"
  shows "adminExists (snd (updateUserRole data uid r))"
proof (cases "findIndex (\<lambda>u. user_id u = uid) (users data)")
  case None
  with assms show ?thesis by (simp add: updateUserRole_def)
next
  case (Some i)
  from findIndex_SomeD [OF Some] have i: "i < length (users data)" by simp
  let ?us = "(users data)[i := (users data ! i)\<lparr>role := r\<rparr>]"
  show ?thesis
  proof (cases "role (users data ! i) = ADMIN \<and> r = USER
      \<and> length (filter (\<lambda>u. role u = ADMIN) (users data)) \<le> 1")
    case True
    with Some assms show ?thesis by (simp add: updateUserRole_def Let_def)
  next
    case False
    with Some have res: "users (snd (updateUserRole data uid r)) = ?us"
      by (auto simp: updateUserRole_def Let_def)
    have "\<exists>u\<in>set ?us. role u = ADMIN"
    proof (cases r)
      case ADMIN
      with i have "?us ! i \<in> set ?us" "role (?us ! i) = ADMIN"
        by (simp_all add: set_update_memI)
      then show ?thesis by blast
    next
      case USER
      show ?thesis
      proof (cases "role (users data ! i) = ADMIN")
        case True
        with False USER have "2 \<le> length (filter (\<lambda>u. role u = ADMIN) (users data))" by simp
        with filter_list_update_length [of "\<lambda>u. role u = ADMIN" "users data" i "(users data ! i)\<lparr>role := r\<rparr>"]
        have "filter (\<lambda>u. role u = ADMIN) ?us \<noteq> []" by auto
        then show ?thesis by (simp add: filter_empty_conv)
      next
        case False
        with USER have "(users data ! i)\<lparr>role := r\<rparr> = users data ! i"
          by (cases "role (users data ! i)") simp_all
        then have "?us = users data" by (simp add: list_update_same_conv)
        moreover from i have "users data \<noteq> []" by auto
        ultimately show ?thesis using assms by (simp add: adminExists_def)
      qed
    qed
    with res show ?thesis by (simp add: adminExists_def)
  qed
qed

lemma adminExists_deleteUser_permitted:
  assumes "permitted data (DeleteUser uid)"
  shows "adminExists (deleteUser data uid)"
proof -
  from assms obtain currentUser where "currentUser \<in> set (users data)"
    "role currentUser = ADMIN" "user_id currentUser \<noteq> uid"
    by (auto simp: UserManager_deleteEnabled_def)
  then have "currentUser \<in> set (users (deleteUser data uid)) \<and> role currentUser = ADMIN"
    by (simp add: deleteUser_def Let_def)
  then show ?thesis unfolding adminExists_def by blast
qed

lemma adminExists_perform:
  assumes "adminExists data" and "permitted data op"
  shows "adminExists (perform K data op)"
proof (cases op)
  case (AddUser uuid em pw)
  with assms show ?thesis by (simp add: adminExists_addUser)
next
  case (DeleteUser uid)
  with assms show ?thesis by (simp add: adminExists_deleteUser_permitted)
next
  case (ResetPassword em)
  with assms show ?thesis by (simp add: adminExists_resetPassword)
next
  case (UpdateUserRole uid r)
  with assms show ?thesis by (simp add: adminExists_updateUserRole)
qed (use assms(1) in \<open>simp_all add: adminExists_def addProfile_def Let_def addTransaction_def
      addMultipleTransactions_def updateTransaction_def deleteTransaction_def addCategory_def
      deleteCategory_def addIncomeSource_def deleteIncomeSource_def addCurrency_def
      deleteCurrency_def updateProfile_def deleteProfile_def\<close>)

lemma adminExists_run_gated:
  "adminExists data \<Longrightarrow> run_gated K data ops = Some data' \<Longrightarrow> adminExists data'"
proof (induction ops arbitrary: data)
  case Nil
  then show ?case by simp
next
  case (Cons op ops)
  from Cons.prems(2) have p: "permitted data op"
    and r: "run_gated K (perform K data op) ops = Some data'"
    by (simp_all split: if_splits)
  from Cons.prems(1) p have "adminExists (perform K data op)"
    by (rule adminExists_perform)
  from Cons.IH [OF this r] show ?case .
qed

text \<open>
  C1 as stated fails: after two sign-ups, \<open>deleteUser\<close> on the first user leaves a store
  with one user and no Admin.
\<close>

theorem admin_exists_counterexample:
  "map role (users (run sampleConstants (initialData sampleConstants) lastAdminDeleted)) = [USER]
   \<and> \<not> adminExists (run sampleConstants (initialData sampleConstants) lastAdminDeleted)"
proof -
  have "users (run sampleConstants (initialData sampleConstants) lastAdminDeleted) = [bob]"
    by (simp add: lastAdminDeleted_def initialData_def addUser_def deleteUser_def Let_def bob_def)
  then show ?thesis
    by (simp add: adminExists_def bob_def)
qed

text \<open>
  C1, amended. In every snapshot that a sequence of operations of the store reaches from
  the empty store, with \<open>deleteUser\<close> called as the user manager lets it be called (by a
  user of the store who is an Admin, on another user), there is an Admin whenever there
  is a user. \<open>deleteUser\<close> itself has no guard for the last Admin.
\<close>

theorem admin_exists_when_gated:
  "run_gated K (initialData K) ops = Some data \<Longrightarrow> adminExists data"
proof -
  have "adminExists (initialData K)"
    by (simp add: adminExists_def initialData_def)
  then show "run_gated K (initialData K) ops = Some data \<Longrightarrow> adminExists data"
    by (rule adminExists_run_gated)
qed

theorem admin_exists_when_gated_witness:
  "map_option users (run_gated sampleConstants (initialData sampleConstants) secondAdminRemains)
     = Some [bob\<lparr>role := ADMIN\<rparr>]
   \<and> run_gated sampleConstants (initialData sampleConstants) secondAdminRemains
     = Some (run sampleConstants (initialData sampleConstants) secondAdminRemains)
   \<and> adminExists (run sampleConstants (initialData sampleConstants) secondAdminRemains)"
proof -
  let ?K = sampleConstants
  have g: "run_gated ?K (initialData ?K) secondAdminRemains = Some (run ?K (initialData ?K) secondAdminRemains)"
    by (simp add: secondAdminRemains_def initialData_def addUser_def updateUserRole_def Let_def
        UserManager_deleteEnabled_def)
  have u: "users (run ?K (initialData ?K) secondAdminRemains) = [bob\<lparr>role := ADMIN\<rparr>]"
    by (simp add: secondAdminRemains_def initialData_def addUser_def updateUserRole_def
        deleteUser_def Let_def bob_def)
  from admin_exists_when_gated [OF g] g u show ?thesis by simp
qed

section \<open>Profile seeding\<close>

lemma addProfile_result:
  "\<exists>cs ss. categories (snd (addProfile K data randomUUID uid nm cur)) = categories data @ cs
     \<and> incomeSources (snd (addProfile K data randomUUID uid nm cur)) = incomeSources data @ ss
     \<and> map cat_name cs = map tpl_name (DEFAULT_CATEGORIES K)
     \<and> map src_name ss = map tpl_name (DEFAULT_INCOME_SOURCES K)
     \<and> map cat_profileId cs = map (\<lambda>_. randomUUID 0) (DEFAULT_CATEGORIES K)
     \<and> map src_profileId ss = map (\<lambda>_. randomUUID 0) (DEFAULT_INCOME_SOURCES K)
     \<and> map cat_id cs @ map src_id ss =
         map (\<lambda>i. randomUUID 0 @ ''-'' @ randomUUID i)
           [1..<1 + length (DEFAULT_CATEGORIES K) + length (DEFAULT_INCOME_SOURCES K)]"
proof -
  let ?n = "length (DEFAULT_CATEGORIES K)" and ?m = "length (DEFAULT_INCOME_SOURCES K)"
  let ?g = "\<lambda>i. randomUUID 0 @ ''-'' @ randomUUID i"
  define cs where "cs =
    map (\<lambda>(i, cat). \<lparr>cat_id = randomUUID 0 @ ''-'' @ randomUUID i,
           cat_name = tpl_name cat, cat_icon = tpl_icon cat,
           cat_isDefault = tpl_isDefault cat, cat_profileId = randomUUID 0\<rparr>)
      (enumerate 1 (DEFAULT_CATEGORIES K))"
  define ss where "ss =
    map (\<lambda>(i, src). \<lparr>src_id = randomUUID 0 @ ''-'' @ randomUUID i,
           src_name = tpl_name src, src_icon = tpl_icon src,
           src_isDefault = tpl_isDefault src, src_profileId = randomUUID 0\<rparr>)
      (enumerate (1 + ?n) (DEFAULT_INCOME_SOURCES K))"
  have c: "categories (snd (addProfile K data randomUUID uid nm cur)) = categories data @ cs"
    and s: "incomeSources (snd (addProfile K data randomUUID uid nm cur)) = incomeSources data @ ss"
    by (simp_all add: addProfile_def Let_def cs_def ss_def)
  have "map cat_name cs = map (\<lambda>(i, x). tpl_name x) (enumerate 1 (DEFAULT_CATEGORIES K))"
    by (simp add: cs_def case_prod_unfold comp_def)
  then have cn: "map cat_name cs = map tpl_name (DEFAULT_CATEGORIES K)"
    by (simp only: map_enumerate_value)
  have "map src_name ss = map (\<lambda>(i, x). tpl_name x) (enumerate (1 + ?n) (DEFAULT_INCOME_SOURCES K))"
    by (simp add: ss_def case_prod_unfold comp_def)
  then have sn: "map src_name ss = map tpl_name (DEFAULT_INCOME_SOURCES K)"
    by (simp only: map_enumerate_value)
  have "map cat_profileId cs = map (\<lambda>(i, x). (\<lambda>_. randomUUID 0) x) (enumerate 1 (DEFAULT_CATEGORIES K))"
    by (simp add: cs_def case_prod_unfold comp_def)
  then have cp: "map cat_profileId cs = map (\<lambda>_. randomUUID 0) (DEFAULT_CATEGORIES K)"
    by (simp only: map_enumerate_value)
  have "map src_profileId ss =
      map (\<lambda>(i, x). (\<lambda>_. randomUUID 0) x) (enumerate (1 + ?n) (DEFAULT_INCOME_SOURCES K))"
    by (simp add: ss_def case_prod_unfold comp_def)
  then have sp: "map src_profileId ss = map (\<lambda>_. randomUUID 0) (DEFAULT_INCOME_SOURCES K)"
    by (simp only: map_enumerate_value)
  have "map cat_id cs = map (\<lambda>(i, x). ?g i) (enumerate 1 (DEFAULT_CATEGORIES K))"
    by (simp add: cs_def case_prod_unfold comp_def)
  then have ci: "map cat_id cs = map ?g [1..<1 + ?n]"
    by (simp only: map_enumerate_index)
  have "map src_id ss = map (\<lambda>(i, x). ?g i) (enumerate (1 + ?n) (DEFAULT_INCOME_SOURCES K))"
    by (simp add: ss_def case_prod_unfold comp_def)
  then have si: "map src_id ss = map ?g [1 + ?n..<1 + ?n + ?m]"
    by (simp only: map_enumerate_index)
  have "[1..<1 + ?n + ?m] = [1..<1 + ?n] @ [1 + ?n..<1 + ?n + ?m]"
    by (metis le_add1 upt_add_eq_append)
  with ci si have ids: "map cat_id cs @ map src_id ss = map ?g [1..<1 + ?n + ?m]"
    by (simp only: map_append)
  from c s cn sn cp sp ids show ?thesis by blast
qed

text \<open>
  C8. Let the two template lists be non-empty, let no identifier of the store begin with
  the identifier drawn for the new profile, and let the draws for the categories and
  income sources differ from each other. Then \<open>addProfile\<close> appends a non-empty list of
  categories and a non-empty list of income sources with the templates' names, each with
  the new profile as its profile; their identifiers are distinct from each other, from
  every identifier in the store before the call (so from the defaults seeded for any
  other profile, whatever their names), and from the new profile's identifier.
\<close>

theorem addProfile_seeds_fresh_defaults:
  assumes "DEFAULT_CATEGORIES K \<noteq> []" and "DEFAULT_INCOME_SOURCES K \<noteq> []"
    and "\<forall>x\<in>storeIds data. \<not> prefix (randomUUID 0) x"
    and "inj_on randomUUID {1..length (DEFAULT_CATEGORIES K) + length (DEFAULT_INCOME_SOURCES K)}"
  shows "\<exists>cs ss.
      categories (snd (addProfile K data randomUUID uid nm cur)) = categories data @ cs
    \<and> incomeSources (snd (addProfile K data randomUUID uid nm cur)) = incomeSources data @ ss
    \<and> cs \<noteq> [] \<and> ss \<noteq> []
    \<and> map cat_name cs = map tpl_name (DEFAULT_CATEGORIES K)
    \<and> map src_name ss = map tpl_name (DEFAULT_INCOME_SOURCES K)
    \<and> (\<forall>c\<in>set cs. cat_profileId c = profile_id (fst (addProfile K data randomUUID uid nm cur)))
    \<and> (\<forall>s\<in>set ss. src_profileId s = profile_id (fst (addProfile K data randomUUID uid nm cur)))
    \<and> distinct (map cat_id cs @ map src_id ss)
    \<and> set (map cat_id cs @ map src_id ss) \<inter> storeIds data = {}
    \<and> profile_id (fst (addProfile K data randomUUID uid nm cur)) \<notin> set (map cat_id cs @ map src_id ss)"
proof -
  let ?n = "length (DEFAULT_CATEGORIES K)" and ?m = "length (DEFAULT_INCOME_SOURCES K)"
  let ?pid = "randomUUID 0"
  let ?g = "\<lambda>i. ?pid @ ''-'' @ randomUUID i"
  from addProfile_result [of K data randomUUID uid nm cur] obtain cs ss where
    r: "categories (snd (addProfile K data randomUUID uid nm cur)) = categories data @ cs"
       "incomeSources (snd (addProfile K data randomUUID uid nm cur)) = incomeSources data @ ss"
       "map cat_name cs = map tpl_name (DEFAULT_CATEGORIES K)"
       "map src_name ss = map tpl_name (DEFAULT_INCOME_SOURCES K)"
       "map cat_profileId cs = map (\<lambda>_. ?pid) (DEFAULT_CATEGORIES K)"
       "map src_profileId ss = map (\<lambda>_. ?pid) (DEFAULT_INCOME_SOURCES K)"
       "map cat_id cs @ map src_id ss = map ?g [1..<1 + ?n + ?m]"
    by blast
  have pid: "profile_id (fst (addProfile K data randomUUID uid nm cur)) = ?pid"
    by (simp add: addProfile_def Let_def)
  from r(3) assms(1) have ne1: "cs \<noteq> []" by auto
  from r(4) assms(2) have ne2: "ss \<noteq> []" by auto
  have own1: "\<forall>c\<in>set cs. cat_profileId c = ?pid"
  proof
    fix c assume "c \<in> set cs"
    then have "cat_profileId c \<in> set (map cat_profileId cs)" by simp
    then show "cat_profileId c = ?pid" unfolding r(5) by auto
  qed
  have own2: "\<forall>s\<in>set ss. src_profileId s = ?pid"
  proof
    fix s assume "s \<in> set ss"
    then have "src_profileId s \<in> set (map src_profileId ss)" by simp
    then show "src_profileId s = ?pid" unfolding r(6) by auto
  qed
  have "inj_on ?g {1..?n + ?m}"
    using assms(4) by (auto simp: inj_on_def)
  moreover have "set [1..<1 + ?n + ?m] = {1..?n + ?m}" by auto
  ultimately have dist: "distinct (map cat_id cs @ map src_id ss)"
    unfolding r(7) by (simp add: distinct_map)
  have pre: "prefix ?pid x" if "x \<in> set (map cat_id cs @ map src_id ss)" for x
    using that unfolding r(7) by auto
  with assms(3) have fresh: "set (map cat_id cs @ map src_id ss) \<inter> storeIds data = {}"
    by blast
  have "?pid \<notin> set (map cat_id cs @ map src_id ss)"
    unfolding r(7) by auto
  with r(1-4) ne1 ne2 own1 own2 dist fresh pid show ?thesis
    by (intro exI [of _ cs] exI [of _ ss]) simp
qed

theorem addProfile_seeds_fresh_defaults_witness:
  "(\<exists>cs ss.
      categories (snd (addProfile sampleConstants seededOnce (draws CHR ''q'') ''u1'' ''Work'' ''USD''))
        = categories seededOnce @ cs
    \<and> incomeSources (snd (addProfile sampleConstants seededOnce (draws CHR ''q'') ''u1'' ''Work'' ''USD''))
        = incomeSources seededOnce @ ss
    \<and> cs \<noteq> [] \<and> ss \<noteq> []
    \<and> map cat_name cs = [''Food'', ''Housing''] \<and> map src_name ss = [''Salary'']
    \<and> distinct (map cat_id cs @ map src_id ss)
    \<and> set (map cat_id cs @ map src_id ss) \<inter> storeIds seededOnce = {})
   \<and> map cat_id (categories seededOnce) = [''p-px'', ''p-pxx'']
   \<and> map cat_name (categories seededOnce) = [''Food'', ''Housing'']"
proof -
  have ids: "storeIds seededOnce = {''p'', ''p-px'', ''p-pxx'', ''p-pxxx''}"
    by (auto simp: storeIds_def seededOnce_def addProfile_def Let_def initialData_def
        sampleConstants_def draws_def)
  have fresh: "\<forall>x\<in>storeIds seededOnce. \<not> prefix (draws CHR ''q'' 0) x"
    unfolding ids by (simp add: draws_def)
  have inj: "inj_on (draws CHR ''q'')
      {1..length (DEFAULT_CATEGORIES sampleConstants) + length (DEFAULT_INCOME_SOURCES sampleConstants)}"
    by (rule inj_onI) (simp add: draws_def)
  have ne: "DEFAULT_CATEGORIES sampleConstants \<noteq> []" "DEFAULT_INCOME_SOURCES sampleConstants \<noteq> []"
    by (simp_all add: sampleConstants_def)
  from addProfile_seeds_fresh_defaults [OF ne fresh inj, of "''u1''" "''Work''" "''USD''"]
  obtain cs ss where
    "categories (snd (addProfile sampleConstants seededOnce (draws CHR ''q'') ''u1'' ''Work'' ''USD''))
        = categories seededOnce @ cs"
    "incomeSources (snd (addProfile sampleConstants seededOnce (draws CHR ''q'') ''u1'' ''Work'' ''USD''))
        = incomeSources seededOnce @ ss"
    "cs \<noteq> []" "ss \<noteq> []"
    "map cat_name cs = map tpl_name (DEFAULT_CATEGORIES sampleConstants)"
    "map src_name ss = map tpl_name (DEFAULT_INCOME_SOURCES sampleConstants)"
    "distinct (map cat_id cs @ map src_id ss)"
    "set (map cat_id cs @ map src_id ss) \<inter> storeIds seededOnce = {}"
    by blast
  then have "\<exists>cs ss.
      categories (snd (addProfile sampleConstants seededOnce (draws CHR ''q'') ''u1'' ''Work'' ''USD''))
        = categories seededOnce @ cs
    \<and> incomeSources (snd (addProfile sampleConstants seededOnce (draws CHR ''q'') ''u1'' ''Work'' ''USD''))
        = incomeSources seededOnce @ ss
    \<and> cs \<noteq> [] \<and> ss \<noteq> []
    \<and> map cat_name cs = [''Food'', ''Housing''] \<and> map src_name ss = [''Salary'']
    \<and> distinct (map cat_id cs @ map src_id ss)
    \<and> set (map cat_id cs @ map src_id ss) \<inter> storeIds seededOnce = {}"
    by (intro exI [of _ cs] exI [of _ ss]) (simp add: sampleConstants_def)
  moreover have "map cat_id (categories seededOnce) = [''p-px'', ''p-pxx'']"
    "map cat_name (categories seededOnce) = [''Food'', ''Housing'']"
    by (simp_all add: seededOnce_def addProfile_def Let_def initialData_def sampleConstants_def draws_def)
  ultimately show ?thesis by simp
qed

section \<open>CSV import: rows that are skipped, rows that end the import\<close>

text \<open>A row with no date, no description, an amount that is not a number or no type is
  skipped, and so is an expense whose category, or an income whose source, matches no name
  of the profile up to case.\<close>

lemma importRow_rejected:
  assumes "row = mkRow header (split_str CHR '','' line)"
    and "falsy (row ''date'') \<or> falsy (row ''description'')
         \<or> isNaN (parseFloat (toStr (row ''amount''))) \<or> falsy (row ''type'')"
  shows "importRow cats srcs header line = Inr None"
  using assms by (simp add: importRow_def Let_def)

lemma importRow_unmatched:
  assumes "row = mkRow header (split_str CHR '','' line)"
    and "toLowerCase (toStr (row ''type'')) = EXPENSE
           \<and> (\<forall>c\<in>set cats. Some (toLowerCase (cat_name c)) \<noteq> map_option toLowerCase (row ''category''))
         \<or> toLowerCase (toStr (row ''type'')) = INCOME
           \<and> (\<forall>s\<in>set srcs. Some (toLowerCase (src_name s)) \<noteq> map_option toLowerCase (row ''source''))"
  shows "importRow cats srcs header line = Inr None"
  using assms by (auto simp: importRow_def Let_def find_None_iff EXPENSE_def INCOME_def)

text \<open>A file whose rows are all skipped leaves the store as it is and reports an error.\<close>

lemma importRows_all_rejected:
  "\<forall>l\<in>set lines. importRow cats srcs header l = Inr None \<Longrightarrow>
   importRows cats srcs header acc lines = Inr acc"
  by (induction lines arbitrary: acc) simp_all

lemma handleImportCSV_all_rejected:
  assumes "\<forall>l\<in>set (tl (filter (\<lambda>line. trim line \<noteq> []) (split_str (CHR 0x0A) text))).
      importRow (profileCategories appData pid) (profileIncomeSources appData pid)
        (map trim (split_str CHR '','' (hd (filter (\<lambda>line. trim line \<noteq> []) (split_str (CHR 0x0A) text))))) l
        = Inr None"
  shows "\<exists>msg. handleImportCSV appData pid randomUUID text = Inr (FeedbackError msg, appData)"
  using importRows_all_rejected [OF assms, of "[]"]
  by (simp add: handleImportCSV_def Let_def)

text \<open>When the loop ends without an exception, it has pushed one transaction for each line
  that passed the checks, and the import appends that many.\<close>

lemma importRows_count:
  "importRows cats srcs header acc lines = Inr ts \<Longrightarrow>
   length ts = length acc + length (filter (\<lambda>l. \<exists>t. importRow cats srcs header l = Inr (Some t)) lines)"
proof (induction lines arbitrary: acc)
  case Nil
  then show ?case by simp
next
  case (Cons l ls)
  show ?case
  proof (cases "importRow cats srcs header l")
    case (Inl e)
    with Cons.prems show ?thesis by simp
  next
    case (Inr r)
    show ?thesis
    proof (cases r)
      case None
      with Inr Cons show ?thesis by simp
    next
      case (Some t)
      with Inr Cons.prems have "importRows cats srcs header (acc @ [t]) ls = Inr ts" by simp
      from Cons.IH [OF this] Inr Some show ?thesis by simp
    qed
  qed
qed

lemma handleImportCSV_count:
  assumes "handleImportCSV appData pid randomUUID text = Inr (fb, appData')"
    and "lines = filter (\<lambda>line. trim line \<noteq> []) (split_str (CHR 0x0A) text)"
    and "2 \<le> length lines"
    and "list_all (\<lambda>h. h \<in> set (map trim (split_str CHR '','' (hd lines)))) requiredHeaders"
  shows "length (transactions appData') = length (transactions appData)
     + length (filter (\<lambda>l. \<exists>t. importRow (profileCategories appData pid) (profileIncomeSources appData pid)
          (map trim (split_str CHR '','' (hd lines))) l = Inr (Some t)) (tl lines))"
proof -
  let ?cats = "profileCategories appData pid" and ?srcs = "profileIncomeSources appData pid"
  let ?header = "map trim (split_str CHR '','' (hd lines))"
  from assms obtain ts where ts: "importRows ?cats ?srcs ?header [] (tl lines) = Inr ts"
    by (cases "importRows ?cats ?srcs ?header [] (tl lines)")
       (auto simp: handleImportCSV_def Let_def split: if_splits)
  from importRows_count [OF ts] have n: "length ts =
     length (filter (\<lambda>l. \<exists>t. importRow ?cats ?srcs ?header l = Inr (Some t)) (tl lines))" by simp
  from assms ts have "appData' =
      (if ts \<noteq> [] then addMultipleTransactions appData randomUUID (map (\<lambda>t. t\<lparr>tx_profileId := pid\<rparr>) ts)
       else appData)"
    by (auto simp: handleImportCSV_def Let_def split: if_splits)
  then have "length (transactions appData') = length (transactions appData) + length ts"
    by (simp add: addMultipleTransactions_def)
  with n show ?thesis by simp
qed

text \<open>The example of the specification: of five data rows, one with an amount that is not
  a number and one with a category that the profile does not have are skipped, and the
  other three are appended.\<close>

lemma import_five_rows_example:
  "map_sum id (\<lambda>(f, d). (f, map description (drop 4 (transactions d))))
     (handleImportCSV oneAdmin ''p1'' (draws CHR ''n'')
       (join [CHR 0x0A]
         [csvHeaderLine,
          ''2024-01-05,Lunch,5.50,expense,cash,Food,'',
          ''2024-01-06,Bonus,abc,income,bank,,Salary'',
          ''2024-01-07,Pay,1200,income,BANK,,salary'',
          ''2024-01-08,Taxi,7,expense,cash,Travel,'',
          ''2024-02-29,Dinner,1e2,Expense,credit,FOOD,'']))
   = Inr (FeedbackSuccess ''Successfully imported 3 transactions.'', [''Lunch'', ''Pay'', ''Dinner''])"
  by code_simp

text \<open>
  C7. Rows that the checks reject are skipped and the rows that pass are counted, as long
  as the import ends. It does not end for a row that passes every check and whose date is
  not a date, or whose line stops before the payment method: building the transaction
  throws, the handler ends, and no row of the file is appended, not even the valid ones
  before it. Below, the row with the date \<open>notadate\<close> passes the checks and throws; a file
  with a valid row and that row appends nothing, where the valid row alone is imported;
  a row of an unknown type that stops after the type throws a \<open>TypeError\<close>.
\<close>

theorem import_aborts_on_invalid_date:
  "importRow (profileCategories oneAdmin ''p1'') (profileIncomeSources oneAdmin ''p1'')
      (map trim (split_str CHR '','' csvHeaderLine)) ''notadate,Lunch,5,expense,cash,Food,''
     = Inl RangeError
   \<and> handleImportCSV oneAdmin ''p1'' (draws CHR ''n'')
       (join [CHR 0x0A]
          [csvHeaderLine, ''2024-01-05,Lunch,5,expense,cash,Food,'', ''notadate,Lunch,5,expense,cash,Food,''])
     = Inl RangeError
   \<and> map_sum id (\<lambda>(f, d). (f, length (transactions d) - length (transactions oneAdmin)))
       (handleImportCSV oneAdmin ''p1'' (draws CHR ''n'')
          (join [CHR 0x0A] [csvHeaderLine, ''2024-01-05,Lunch,5,expense,cash,Food,'']))
     = Inr (FeedbackSuccess ''Successfully imported 1 transactions.'', 1)
   \<and> handleImportCSV oneAdmin ''p1'' (draws CHR ''n'')
       (join [CHR 0x0A] [csvHeaderLine, ''2024-01-05,Lunch,5,transfer''])
     = Inl TypeError"
  by code_simp

section \<open>CSV round trip\<close>

text \<open>A description without a comma comes back: the export of Ann's first profile,
  imported into that profile, appends a copy of its transaction.\<close>

lemma export_import_example:
  "map_sum id (\<lambda>(f, d). (f, map (\<lambda>t. t\<lparr>tx_id := []\<rparr>) (drop 4 (transactions d))))
     (handleImportCSV oneAdmin ''p1'' (draws CHR ''n'') (handleExportCSV oneAdmin ''p1''))
   = Inr (FeedbackSuccess ''Successfully imported 1 transactions.'',
          [(sampleTransaction [] ''p1'' ''Lunch'')])"
  by code_simp

text \<open>
  C4. The round trip fails for a description with a comma. The export writes the
  description between quotes; the import splits the line at every comma, reads the
  second half of the description as the amount, finds no number and skips the row. The
  profile's one transaction is exported and nothing is imported.
\<close>

theorem export_import_loses_comma_description:
  "map description (profileTransactions commaStore ''p1'') = [''Lunch, dinner'']
   \<and> handleExportCSV commaStore ''p1'' =
       csvHeaderLine @ [CHR 0x0A] @ ''2024-01-05,'' @ [CHR 0x22] @ ''Lunch, dinner'' @ [CHR 0x22]
         @ '',10,expense,cash,Food,''
   \<and> handleImportCSV commaStore ''p1'' (draws CHR ''n'') (handleExportCSV commaStore ''p1'') =
       Inr (FeedbackError
         ''No valid transactions found to import. Check file format and ensure categories/sources exist.'',
         commaStore)"
  by code_simp

end
